theory Spec2Isabelle
  imports Main
begin

section \<open>JavaScript values\<close>

text \<open>
  An exception raised with \<^verbatim>\<open>throw new Error(msg)\<close> is the value \<open>Error msg\<close>; a
  function that may throw returns \<open>js_error + 'a\<close>, with \<open>Inl\<close> for the exception.
\<close>

datatype js_error = Error string

text \<open>
  An object whose keys and values are strings, with its prototype: reading a property
  looks at the object's own properties first and at the prototype's next, an assignment
  writes an own property, and the spread \<^verbatim>\<open>{...obj}\<close> copies the own properties only.
\<close>

record js_object =
  own :: "string \<rightharpoonup> string"
  proto :: "string \<rightharpoonup> string"

definition Object_create :: "(string \<rightharpoonup> string) \<Rightarrow> js_object" where
  "Object_create p = \<lparr>own = Map.empty, proto = p\<rparr>"

definition get_property :: "js_object \<Rightarrow> string \<Rightarrow> string option" where
  "get_property obj k = (case own obj k of Some v \<Rightarrow> Some v | None \<Rightarrow> proto obj k)"

definition set_property :: "js_object \<Rightarrow> string \<Rightarrow> string \<Rightarrow> js_object" where
  "set_property obj k v = obj\<lparr>own := (own obj)(k \<mapsto> v)\<rparr>"

definition spread :: "js_object \<Rightarrow> (string \<rightharpoonup> string)" where
  "spread obj = own obj"

text \<open>A property that is read inside a string concatenation: a missing one reads \<^verbatim>\<open>undefined\<close>.\<close>

definition concat_operand :: "string option \<Rightarrow> string" where
  "concat_operand v = (case v of Some s \<Rightarrow> s | None \<Rightarrow> ''undefined'')"

text \<open>\<^verbatim>\<open>Number.prototype.toString\<close> on a non-negative integer: its decimal digits.\<close>

definition digit_char :: "nat \<Rightarrow> char" where
  "digit_char d = ''0123456789'' ! d"

function number_toString :: "nat \<Rightarrow> string" where
  "number_toString n =
     (if n < 10 then [digit_char n]
      else number_toString (n div 10) @ [digit_char (n mod 10)])"
  by pat_completeness auto
termination
  by (relation "measure (\<lambda>n. n)") auto

declare number_toString.simps [simp del]

section \<open>The Go language server launcher\<close>

subsection \<open>Configuration and the launcher object\<close>

record lsp_options =
  detach :: bool

record server_options =
  lsp :: lsp_options
  goPath :: string

record GoServerLauncher =
  targetHost :: string
  options :: server_options
  installationPath :: string

definition GO_LANG_DETACH_PORT :: nat where
  "GO_LANG_DETACH_PORT = 2091"

subsection \<open>What the launcher reads from its surroundings\<close>

text \<open>
  The launcher calls into Node and three packages (\<^verbatim>\<open>glob\<close>, \<^verbatim>\<open>get-port\<close>, the
  bundled git's \<^verbatim>\<open>paths\<close>). None of them is code of the launcher, so each is a field of
  the record below, and every theorem holds whatever they return:
  \<^item> \<open>glob_sync pattern cwd\<close> is \<^verbatim>\<open>glob.sync(pattern, {cwd})\<close>;
  \<^item> \<open>path_resolve a b\<close>, \<open>path_join a b\<close>, \<open>path_dirname p\<close> and \<open>path_delimiter\<close> are
    those of \<^verbatim>\<open>path\<close>;
  \<^item> \<open>process_platform\<close> is \<^verbatim>\<open>process.platform\<close>, \<open>getOsPlatform\<close> is \<^verbatim>\<open>os.platform()\<close>,
    \<open>process_env\<close> is \<^verbatim>\<open>process.env\<close>;
  \<^item> \<open>paths platform\<close> is the bundled git's layout for that platform;
  \<^item> \<open>get_port\<close> is the port that this call of \<^verbatim>\<open>getPort()\<close> of \<^verbatim>\<open>get-port\<close> resolves to;
  \<^item> \<open>mkdir_error p\<close> is the exception \<^verbatim>\<open>fs.mkdirSync(p)\<close> raises, if it raises one;
  \<^item> \<open>spawn_pid\<close> is the pid of the child that \<^verbatim>\<open>spawn\<close> starts, and
    \<open>buffer_toString\<close> is \<^verbatim>\<open>toString()\<close> on a chunk of output.
\<close>

record git_paths =
  binPath :: string
  nativeDir :: string

record runtime =
  process_platform :: string
  getOsPlatform :: string
  process_env :: "string \<rightharpoonup> string"
  glob_sync :: "string \<Rightarrow> string \<Rightarrow> string list"
  path_resolve :: "string \<Rightarrow> string \<Rightarrow> string"
  path_join :: "string \<Rightarrow> string \<Rightarrow> string"
  path_dirname :: "string \<Rightarrow> string"
  path_delimiter :: string
  paths :: "string \<Rightarrow> git_paths"
  get_port :: nat
  mkdir_error :: "string \<Rightarrow> js_error option"
  spawn_pid :: nat
  buffer_toString :: "string \<Rightarrow> string"

subsection \<open>The log sink, the child process and the effects of a call\<close>

datatype Logger = Logger string

datatype log_call = Log_stdout Logger string | Log_stderr Logger string | Log_info Logger string

datatype stdio_option = Stdio_pipe | Stdio_inherit | Stdio_ignore

record spawn_options =
  detached :: bool
  stdio :: stdio_option
  env :: "string \<rightharpoonup> string"

text \<open>
  The child process as \<^verbatim>\<open>spawn(command, args, options)\<close> returns it, with the listeners
  that \<^verbatim>\<open>p.stdout.on('data', f)\<close> and \<^verbatim>\<open>p.stderr.on('data', f)\<close> register, in order. A
  listener is the call to the log sink it makes on a chunk.
\<close>

record child_process =
  command :: string
  args :: "string list"
  spawn_opts :: spawn_options
  pid :: nat
  stdout_on_data :: "(string \<Rightarrow> log_call) list"
  stderr_on_data :: "(string \<Rightarrow> log_call) list"

datatype ExternalProgram = ExternalProgram child_process server_options Logger

text \<open>
  What a call does besides returning, in the order it does it. The file system is the
  set of paths for which \<^verbatim>\<open>fs.existsSync\<close> answers true.
\<close>

datatype effect =
    MkdirSync string
  | Spawn string "string list" spawn_options
  | Log log_call

record outcome =
  result :: "js_error + ExternalProgram"
  fs_after :: "string set"
  effects :: "effect list"

definition spawn :: "runtime \<Rightarrow> string \<Rightarrow> string list \<Rightarrow> spawn_options \<Rightarrow> child_process" where
  "spawn rt cmd params opts =
     \<lparr>command = cmd, args = params, spawn_opts = opts, pid = spawn_pid rt,
      stdout_on_data = [], stderr_on_data = []\<rparr>"

subsection \<open>getPort\<close>

definition getPort :: "GoServerLauncher \<Rightarrow> runtime \<Rightarrow> nat" where
  "getPort this rt =
     (if \<not> detach (lsp (options this)) then get_port rt else GO_LANG_DETACH_PORT)"

subsection \<open>getBundledGoToolchain\<close>

text \<open>\<open>None\<close> is \<^verbatim>\<open>undefined\<close>.\<close>

definition getBundledGoToolchain :: "runtime \<Rightarrow> string \<Rightarrow> Logger \<Rightarrow> string option" where
  "getBundledGoToolchain rt installationPath' log =
     (case glob_sync rt ''**/go/**'' installationPath' of
        [] \<Rightarrow> None
      | first # _ \<Rightarrow> Some (path_resolve rt installationPath' first))"

subsection \<open>spawnProcess\<close>

definition launcher_pattern :: "runtime \<Rightarrow> string" where
  "launcher_pattern rt =
     (if process_platform rt = ''win32'' then ''go-langserver.exe'' else ''go-langserver'')"

definition executable_error :: js_error where
  "executable_error = Error ''Cannot find executable go language server''"

definition toolchain_error :: js_error where
  "toolchain_error = Error ''Cannot find go toolchain in bundle installation''"

text \<open>The object \<^verbatim>\<open>langserverRelatedEnv\<close>, with the keys the platform adds.\<close>

definition langserverRelatedEnv ::
  "runtime \<Rightarrow> string \<Rightarrow> string \<Rightarrow> string \<Rightarrow> (string \<rightharpoonup> string)" where
  "langserverRelatedEnv rt goRoot goPath' goCache =
     (let e0 = [''GOROOT'' \<mapsto> goRoot, ''GOPATH'' \<mapsto> goPath', ''GOCACHE'' \<mapsto> goCache,
                ''CGO_ENABLED'' \<mapsto> ''0''];
          platform = getOsPlatform rt;
          git = paths rt platform
      in if platform \<noteq> ''win32'' then
           (let e1 = e0(''PREFIX'' \<mapsto> nativeDir git)
            in if platform = ''linux''
               then e1(''GIT_SSL_CAINFO'' \<mapsto> path_join rt (nativeDir git) ''ssl/cacert.pem'')
               else e1)
         else e0)"

text \<open>
  The environment handed to \<^verbatim>\<open>spawn\<close>: \<^verbatim>\<open>env\<close> is a fresh object whose prototype is
  \<^verbatim>\<open>process.env\<close>, its \<^verbatim>\<open>PATH\<close> is assigned, and the object literal spreads \<^verbatim>\<open>env\<close>,
  sets the two \<^verbatim>\<open>CLIENT_\<close> keys and spreads \<^verbatim>\<open>langserverRelatedEnv\<close>, later keys winning.
\<close>

definition spawn_env ::
  "runtime \<Rightarrow> nat \<Rightarrow> string \<Rightarrow> string \<Rightarrow> (string \<rightharpoonup> string) \<Rightarrow> (string \<rightharpoonup> string)" where
  "spawn_env rt port gitPath goHome lsEnv =
     (let env0 = Object_create (process_env rt);
          env1 = set_property env0 ''PATH''
                   (gitPath @ path_delimiter rt @ goHome @ path_delimiter rt @
                    concat_operand (get_property env0 ''PATH''))
      in spread env1
         ++ [''CLIENT_HOST'' \<mapsto> ''127.0.0.1'', ''CLIENT_PORT'' \<mapsto> number_toString port]
         ++ lsEnv)"

text \<open>
  From the spawn of the child to the return: the two listeners, the line written with
  \<^verbatim>\<open>log.info\<close>, and the handle.
\<close>

definition launch ::
  "GoServerLauncher \<Rightarrow> runtime \<Rightarrow> nat \<Rightarrow> Logger \<Rightarrow> string \<Rightarrow> string \<Rightarrow>
   string set \<Rightarrow> effect list \<Rightarrow> outcome" where
  "launch this rt port log launcher0 goRoot fs done =
     (let goHome = path_resolve rt goRoot ''bin'';
          goPath' = goPath (options this);
          goCache = path_resolve rt goPath' ''.cache'';
          lsEnv = langserverRelatedEnv rt goRoot goPath' goCache;
          gitPath = path_dirname rt (binPath (paths rt (getOsPlatform rt)));
          params = [''-port='' @ number_toString port];
          golsp = path_resolve rt (installationPath this) launcher0;
          opts = \<lparr>detached = False, stdio = Stdio_pipe,
                  env = spawn_env rt port gitPath goHome lsEnv\<rparr>;
          p0 = spawn rt golsp params opts;
          p1 = p0\<lparr>stdout_on_data :=
                     stdout_on_data p0 @ [\<lambda>data. Log_stdout log (buffer_toString rt data)]\<rparr>;
          p2 = p1\<lparr>stderr_on_data :=
                     stderr_on_data p1 @ [\<lambda>data. Log_stderr log (buffer_toString rt data)]\<rparr>;
          line = ''Launch Go Language Server at port '' @ number_toString port @
                 '', pid:'' @ number_toString (pid p2) @ '', GOROOT:'' @ goRoot
      in \<lparr>result = Inr (ExternalProgram p2 (options this) log),
          fs_after = fs,
          effects = done @ [Spawn golsp params opts, Log (Log_info log line)]\<rparr>)"

definition spawnProcess ::
  "GoServerLauncher \<Rightarrow> runtime \<Rightarrow> string set \<Rightarrow> nat \<Rightarrow> Logger \<Rightarrow> outcome" where
  "spawnProcess this rt fs port log =
     (case glob_sync rt (launcher_pattern rt) (installationPath this) of
        [] \<Rightarrow> \<lparr>result = Inl executable_error, fs_after = fs, effects = []\<rparr>
      | launcher0 # _ \<Rightarrow>
          (case getBundledGoToolchain rt (installationPath this) log of
             None \<Rightarrow> \<lparr>result = Inl toolchain_error, fs_after = fs, effects = []\<rparr>
           | Some goToolchain \<Rightarrow>
               if goToolchain = [] then
                 \<lparr>result = Inl toolchain_error, fs_after = fs, effects = []\<rparr>
               else if goPath (options this) \<in> fs then
                 launch this rt port log launcher0 goToolchain fs []
               else
                 (case mkdir_error rt (goPath (options this)) of
                    Some e \<Rightarrow>
                      \<lparr>result = Inl e, fs_after = fs,
                       effects = [MkdirSync (goPath (options this))]\<rparr>
                  | None \<Rightarrow>
                      launch this rt port log launcher0 goToolchain
                        (insert (goPath (options this)) fs)
                        [MkdirSync (goPath (options this))])))"

section \<open>The expression render handler\<close>

text \<open>
  The data handed to \<^verbatim>\<open>render\<close>: an object whose \<^verbatim>\<open>type\<close> and \<^verbatim>\<open>as\<close> may be absent
  (\<open>None\<close>), and a value that only the renderer reads. \<^verbatim>\<open>null\<close> and \<^verbatim>\<open>undefined\<close> in
  place of the object are \<open>None :: Data option\<close>.
\<close>

record Data =
  data_type :: "string option"
  data_as :: "string option"
  data_value :: string

text \<open>
  The calls a renderer makes on the handlers object it is given, and a renderer as the
  calls it makes, in order, for an element and a value.
\<close>

datatype handler_call = OnDestroy string | Done | Reload | Update string | Event string

type_synonym renderer = "string \<Rightarrow> string \<Rightarrow> handler_call list"

definition handler_name :: "handler_call \<Rightarrow> string" where
  "handler_name c =
     (case c of OnDestroy _ \<Rightarrow> ''onDestroy'' | Done \<Rightarrow> ''done'' | Reload \<Rightarrow> ''reload''
      | Update _ \<Rightarrow> ''update'' | Event _ \<Rightarrow> ''event'')"

text \<open>
  The handler object: its fields, and for each of its three subjects the values emitted
  so far (\<open>None\<close> on \<open>update_emitted\<close> is the \<^verbatim>\<open>null\<close> that \<^verbatim>\<open>reload\<close> sends). \<open>invoked\<close>
  lists the renderers run so far, as renderer id, element and value; \<open>extra_called\<close>
  lists the calls that went to a handler of \<^verbatim>\<open>extraHandlers\<close>.
\<close>

record ExpressionRenderHandler =
  element :: string
  destroyFn :: "string option"
  renderCount :: nat
  render_emitted :: "nat list"
  update_emitted :: "string option list"
  events_emitted :: "string list"
  invoked :: "(string \<times> string \<times> string) list"
  extra_called :: "handler_call list"

text \<open>
  One call on \<^verbatim>\<open>{ ...this.handlers, ...extraHandlers }\<close>: a name that \<^verbatim>\<open>extraHandlers\<close>
  defines (\<open>extra\<close> lists its keys) hides the handler's own.
\<close>

definition handle ::
  "string list \<Rightarrow> ExpressionRenderHandler \<Rightarrow> handler_call \<Rightarrow> ExpressionRenderHandler" where
  "handle extra this c =
     (if handler_name c \<in> set extra then this\<lparr>extra_called := extra_called this @ [c]\<rparr>
      else case c of
          OnDestroy fn \<Rightarrow> this\<lparr>destroyFn := Some fn\<rparr>
        | Done \<Rightarrow>
            this\<lparr>renderCount := renderCount this + 1,
                 render_emitted := render_emitted this @ [renderCount this + 1]\<rparr>
        | Reload \<Rightarrow> this\<lparr>update_emitted := update_emitted this @ [None]\<rparr>
        | Update params \<Rightarrow> this\<lparr>update_emitted := update_emitted this @ [Some params]\<rparr>
        | Event d \<Rightarrow> this\<lparr>events_emitted := events_emitted this @ [d]\<rparr>)"

definition quote :: char where
  "quote = CHR 0x27"

definition invalid_data :: js_error where
  "invalid_data = Error ''invalid data provided to expression renderer''"

definition invalid_renderer :: "string \<Rightarrow> js_error" where
  "invalid_renderer a = Error (''invalid renderer id '' @ [quote] @ a @ [quote])"

text \<open>
  \<^verbatim>\<open>render\<close> returns the rejection, or the promise of the first value that \<^verbatim>\<open>render$\<close>
  emits after the call subscribed (\<open>None\<close> while none has come), and the handler after
  the call.
\<close>

definition render ::
  "ExpressionRenderHandler \<Rightarrow> (string \<rightharpoonup> renderer) \<Rightarrow> Data option \<Rightarrow> string list \<Rightarrow>
   (js_error + nat option) \<times> ExpressionRenderHandler" where
  "render this registry data extraHandlers =
     (case data of
        None \<Rightarrow> (Inl invalid_data, this)
      | Some d \<Rightarrow>
          if data_type d \<noteq> Some ''render'' then (Inl invalid_data, this)
          else (case data_as d of
                  None \<Rightarrow> (Inl invalid_data, this)
                | Some a \<Rightarrow>
                    if a = [] then (Inl invalid_data, this)
                    else (case registry a of
                            None \<Rightarrow> (Inl (invalid_renderer a), this)
                          | Some r \<Rightarrow>
                              (let subscribed = length (render_emitted this);
                                   this1 = this\<lparr>invoked :=
                                             invoked this @ [(a, element this, data_value d)]\<rparr>;
                                   this2 = foldl (handle extraHandlers) this1
                                             (r (element this) (data_value d))
                               in (Inr (case drop subscribed (render_emitted this2) of
                                          [] \<Rightarrow> None | v # _ \<Rightarrow> Some v),
                                   this2)))))"

section \<open>The events-over-time query\<close>

text \<open>
  A number as a template literal prints it, for an integer: its decimal digits, after a
  minus sign when it is negative.
\<close>

definition integer_toString :: "int \<Rightarrow> string" where
  "integer_toString i =
     (if i < 0 then ''-'' @ number_toString (nat (- i)) else number_toString (nat i))"

record timerange =
  tr_from :: int
  tr_to :: int
  timezone :: "string option"

record source_fields =
  timestamp :: string

record source_configuration =
  config_fields :: source_fields

record 'q RequestBasicOptions =
  filterQuery :: 'q
  timerange :: timerange
  defaultIndex :: "string list"
  sourceConfiguration :: source_configuration

text \<open>
  A clause of the filter: one that \<^verbatim>\<open>createQueryFilterClauses\<close> made, or the range on the
  timestamp field, whose \<^verbatim>\<open>time_zone\<close> key is present only for a truthy time zone.
\<close>

record range_bounds =
  gte :: int
  lte :: int
  time_zone :: "string option"

datatype 'c filter_clause = Clause 'c | Range string range_bounds

datatype histogram =
    Date_histogram string string
  | Auto_date_histogram string nat

record terms_aggregation =
  terms_field :: string
  terms_missing :: string
  terms_order_count :: string
  terms_size :: nat

record event_action_group =
  terms :: terms_aggregation
  aggs_events :: histogram

record 'c query_body =
  aggregations_eventActionGroup :: event_action_group
  query_bool_filter :: "'c filter_clause list"
  body_size :: nat
  track_total_hits :: bool

record 'c dsl_query =
  index :: "string list"
  allowNoIndices :: bool
  ignoreUnavailable :: bool
  body :: "'c query_body"

text \<open>
  The interval that \<^verbatim>\<open>calculateTimeseriesInterval\<close> returns is a whole number of seconds
  or nothing (\<open>None\<close>); nothing and zero are falsy.
\<close>

definition truthy_interval :: "int option \<Rightarrow> bool" where
  "truthy_interval i = (case i of None \<Rightarrow> False | Some n \<Rightarrow> n \<noteq> 0)"

definition template_interval :: "int option \<Rightarrow> string" where
  "template_interval i = (case i of None \<Rightarrow> ''null'' | Some n \<Rightarrow> integer_toString n)"

definition getHistogramAggregation ::
  "(int \<Rightarrow> int \<Rightarrow> int \<Rightarrow> int option) \<Rightarrow> int \<Rightarrow> int \<Rightarrow> event_action_group" where
  "getHistogramAggregation calculateTimeseriesInterval from' to' =
     (let minIntervalSeconds = 10;
          interval = calculateTimeseriesInterval from' to' minIntervalSeconds;
          histogramTimestampField = ''@timestamp'';
          dateHistogram =
            Date_histogram histogramTimestampField (template_interval interval @ ''s'');
          autoDateHistogram = Auto_date_histogram histogramTimestampField 36
      in \<lparr>terms = \<lparr>terms_field = ''event.action'', terms_missing = ''All others'',
                    terms_order_count = ''desc'', terms_size = 10\<rparr>,
          aggs_events = (if truthy_interval interval then dateHistogram
                         else autoDateHistogram)\<rparr>)"

text \<open>
  \<^verbatim>\<open>createQueryFilterClauses\<close> and \<^verbatim>\<open>calculateTimeseriesInterval\<close> come from
  \<^verbatim>\<open>utils/build_query\<close>; the query is built from whatever they return, so they are the
  first two arguments.
\<close>

definition buildEventsOverTimeQuery ::
  "('q \<Rightarrow> 'c list) \<Rightarrow> (int \<Rightarrow> int \<Rightarrow> int \<Rightarrow> int option) \<Rightarrow> 'q RequestBasicOptions \<Rightarrow>
   'c dsl_query" where
  "buildEventsOverTimeQuery createQueryFilterClauses calculateTimeseriesInterval opts =
     (let from' = tr_from (timerange opts);
          to' = tr_to (timerange opts);
          tz = timezone (timerange opts);
          filter' = map Clause (createQueryFilterClauses (filterQuery opts)) @
                    [Range (timestamp (config_fields (sourceConfiguration opts)))
                       \<lparr>gte = from', lte = to',
                        time_zone = (case tz of None \<Rightarrow> None
                                     | Some z \<Rightarrow> if z = [] then None else Some z)\<rparr>]
      in \<lparr>index = defaultIndex opts,
          allowNoIndices = True,
          ignoreUnavailable = True,
          body = \<lparr>aggregations_eventActionGroup =
                    getHistogramAggregation calculateTimeseriesInterval from' to',
                  query_bool_filter = filter',
                  body_size = 0,
                  track_total_hits = True\<rparr>\<rparr>)"

section \<open>Sample installations and inputs\<close>

text \<open>
  A POSIX host for the samples. Every path handed to \<^verbatim>\<open>path.resolve\<close> and
  \<^verbatim>\<open>path.join\<close> below is an absolute, normalised directory followed by a relative,
  normalised path, where both functions put a slash between the two; \<^verbatim>\<open>path.dirname\<close>
  drops the last component.
\<close>

definition under :: "string \<Rightarrow> string \<Rightarrow> string" where
  "under dir rel = dir @ ''/'' @ rel"

definition parent :: "string \<Rightarrow> string" where
  "parent p = rev (drop 1 (dropWhile (\<lambda>c. c \<noteq> CHR ''/'') (rev p)))"

definition posix_host :: "(string \<Rightarrow> string \<Rightarrow> string list) \<Rightarrow> runtime" where
  "posix_host g =
     \<lparr>process_platform = ''linux'', getOsPlatform = ''linux'',
      process_env = [''PATH'' \<mapsto> ''/usr/bin'', ''HOME'' \<mapsto> ''/root''],
      glob_sync = g, path_resolve = under, path_join = under, path_dirname = parent,
      path_delimiter = '':'',
      paths = (\<lambda>_. \<lparr>binPath = ''/opt/git/bin/git'', nativeDir = ''/opt/git''\<rparr>),
      get_port = 49152, mkdir_error = (\<lambda>_. None), spawn_pid = 4242,
      buffer_toString = (\<lambda>chunk. chunk)\<rparr>"

text \<open>
  The installation \<^verbatim>\<open>/opt/lsp\<close> that holds the file \<^verbatim>\<open>go-langserver\<close> and the directory
  \<^verbatim>\<open>sdk/go/bin\<close>, and nothing else. \<^verbatim>\<open>glob.sync\<close> returns its matches relative to
  \<^verbatim>\<open>cwd\<close> and sorted: \<^verbatim>\<open>**/go/**\<close> matches the directory \<^verbatim>\<open>sdk/go\<close> and what is below it.
\<close>

definition lsp_glob :: "string \<Rightarrow> string \<Rightarrow> string list" where
  "lsp_glob pattern cwd =
     (if cwd = ''/opt/lsp'' \<and> pattern = ''go-langserver'' then [''go-langserver'']
      else if cwd = ''/opt/lsp'' \<and> pattern = ''**/go/**'' then [''sdk/go'', ''sdk/go/bin'']
      else [])"

text \<open>The same installation without the \<^verbatim>\<open>sdk\<close> directory.\<close>

definition bare_glob :: "string \<Rightarrow> string \<Rightarrow> string list" where
  "bare_glob pattern cwd =
     (if cwd = ''/opt/lsp'' \<and> pattern = ''go-langserver'' then [''go-langserver''] else [])"

text \<open>An empty installation directory.\<close>

definition empty_glob :: "string \<Rightarrow> string \<Rightarrow> string list" where
  "empty_glob pattern cwd = []"

definition lsp_launcher :: "bool \<Rightarrow> GoServerLauncher" where
  "lsp_launcher d =
     \<lparr>targetHost = ''localhost'',
      options = \<lparr>lsp = \<lparr>detach = d\<rparr>, goPath = ''/data/gopath''\<rparr>,
      installationPath = ''/opt/lsp''\<rparr>"

definition code_log :: Logger where
  "code_log = Logger ''code''"

text \<open>Inputs of the render handler.\<close>

definition fresh_handler :: ExpressionRenderHandler where
  "fresh_handler =
     \<lparr>element = ''div'', destroyFn = None, renderCount = 0, render_emitted = [],
      update_emitted = [], events_emitted = [], invoked = [], extra_called = []\<rparr>"

definition markdown_registry :: "string \<rightharpoonup> renderer" where
  "markdown_registry = [''markdown'' \<mapsto> (\<lambda>el v. [Done])]"

definition render_data :: "string \<Rightarrow> string \<Rightarrow> Data" where
  "render_data t a = \<lparr>data_type = Some t, data_as = Some a, data_value = ''# title''\<rparr>"

text \<open>Inputs of the query builder: a filter query is a string, and so is a clause.\<close>

definition sample_clauses :: "string \<Rightarrow> string list" where
  "sample_clauses q = (if q = [] then [] else [q])"

definition sample_interval :: "int \<Rightarrow> int \<Rightarrow> int \<Rightarrow> int option" where
  "sample_interval from' to' minIntervalSeconds =
     (if to' \<le> from' then None else Some (max minIntervalSeconds ((to' - from') div 50000)))"

definition sample_request :: "int \<Rightarrow> int \<Rightarrow> string RequestBasicOptions" where
  "sample_request from' to' =
     \<lparr>filterQuery = ''host.name: web-1'',
      timerange = \<lparr>tr_from = from', tr_to = to', timezone = None\<rparr>,
      defaultIndex = [''auditbeat-*''],
      sourceConfiguration = \<lparr>config_fields = \<lparr>timestamp = ''@timestamp''\<rparr>\<rparr>\<rparr>"

section \<open>Evaluation lemmas\<close>


section \<open>Facts about the launcher\<close>

lemma langserverRelatedEnv_keys:
  "langserverRelatedEnv rt r p c ''GOROOT'' = Some r"
  "langserverRelatedEnv rt r p c ''GOPATH'' = Some p"
  "langserverRelatedEnv rt r p c ''GOCACHE'' = Some c"
  "langserverRelatedEnv rt r p c ''CGO_ENABLED'' = Some ''0''"
  "langserverRelatedEnv rt r p c ''CLIENT_HOST'' = None"
  "langserverRelatedEnv rt r p c ''CLIENT_PORT'' = None"
  "langserverRelatedEnv rt r p c ''PATH'' = None"
  by (simp_all add: langserverRelatedEnv_def Let_def)

lemma spawn_env_keys:
  "spawn_env rt port g h (langserverRelatedEnv rt r p c) ''GOROOT'' = Some r"
  "spawn_env rt port g h (langserverRelatedEnv rt r p c) ''GOPATH'' = Some p"
  "spawn_env rt port g h (langserverRelatedEnv rt r p c) ''GOCACHE'' = Some c"
  "spawn_env rt port g h (langserverRelatedEnv rt r p c) ''CGO_ENABLED'' = Some ''0''"
  "spawn_env rt port g h (langserverRelatedEnv rt r p c) ''CLIENT_HOST'' = Some ''127.0.0.1''"
  "spawn_env rt port g h (langserverRelatedEnv rt r p c) ''CLIENT_PORT'' =
     Some (number_toString port)"
  "spawn_env rt port g h (langserverRelatedEnv rt r p c) ''PATH'' =
     Some (g @ path_delimiter rt @ h @ path_delimiter rt @
           concat_operand (process_env rt ''PATH''))"
  by (simp_all add: spawn_env_def Let_def map_add_def langserverRelatedEnv_keys spread_def
        set_property_def Object_create_def get_property_def)

text \<open>What \<open>launch\<close> returns and does, field by field.\<close>

lemma launch_returns:
  obtains p where
    "result (launch this rt port log l0 r fs done) = Inr (ExternalProgram p (options this) log)"
    "command p = path_resolve rt (installationPath this) l0"
    "args p = [''-port='' @ number_toString port]"
    "detached (spawn_opts p) = False"
    "stdio (spawn_opts p) = Stdio_pipe"
    "env (spawn_opts p) =
       spawn_env rt port (path_dirname rt (binPath (paths rt (getOsPlatform rt))))
         (path_resolve rt r ''bin'')
         (langserverRelatedEnv rt r (goPath (options this))
            (path_resolve rt (goPath (options this)) ''.cache''))"
    "pid p = spawn_pid rt"
    "stdout_on_data p = [\<lambda>data. Log_stdout log (buffer_toString rt data)]"
    "stderr_on_data p = [\<lambda>data. Log_stderr log (buffer_toString rt data)]"
    "effects (launch this rt port log l0 r fs done) =
       done @ [Spawn (command p) (args p) (spawn_opts p),
               Log (Log_info log (''Launch Go Language Server at port '' @ number_toString port @
                         '', pid:'' @ number_toString (spawn_pid rt) @ '', GOROOT:'' @ r))]"
    "fs_after (launch this rt port log l0 r fs done) = fs"
  by (rule that [of "\<lparr>command = path_resolve rt (installationPath this) l0,
        args = [''-port='' @ number_toString port],
        spawn_opts = \<lparr>detached = False, stdio = Stdio_pipe,
           env = spawn_env rt port (path_dirname rt (binPath (paths rt (getOsPlatform rt))))
                   (path_resolve rt r ''bin'')
                   (langserverRelatedEnv rt r (goPath (options this))
                      (path_resolve rt (goPath (options this)) ''.cache''))\<rparr>,
        pid = spawn_pid rt,
        stdout_on_data = [\<lambda>data. Log_stdout log (buffer_toString rt data)],
        stderr_on_data = [\<lambda>data. Log_stderr log (buffer_toString rt data)]\<rparr>"])
     (simp_all add: launch_def Let_def spawn_def)



text \<open>
  A call that returns a handle found both the executable and the toolchain, and is the
  launch of the first match of each.
\<close>

lemma spawnProcess_success:
  assumes "result (spawnProcess this rt fs port log) = Inr ep"
  obtains launcher0 rest toolchain0 rest' where
    "glob_sync rt (launcher_pattern rt) (installationPath this) = launcher0 # rest"
    "glob_sync rt ''**/go/**'' (installationPath this) = toolchain0 # rest'"
    "path_resolve rt (installationPath this) toolchain0 \<noteq> []"
    "spawnProcess this rt fs port log =
       launch this rt port log launcher0 (path_resolve rt (installationPath this) toolchain0)
         (insert (goPath (options this)) fs)
         (if goPath (options this) \<in> fs then [] else [MkdirSync (goPath (options this))])"
  using assms
  by (auto simp: spawnProcess_def getBundledGoToolchain_def insert_absorb
           split: list.splits option.splits if_splits)

lemma spawnProcess_launched:
  assumes "result (spawnProcess this rt fs port log) = Inr ep"
  obtains p launcher0 rest toolchain0 rest' where
    "ep = ExternalProgram p (options this) log"
    "glob_sync rt (launcher_pattern rt) (installationPath this) = launcher0 # rest"
    "glob_sync rt ''**/go/**'' (installationPath this) = toolchain0 # rest'"
    "command p = path_resolve rt (installationPath this) launcher0"
    "args p = [''-port='' @ number_toString port]"
    "detached (spawn_opts p) = False"
    "stdio (spawn_opts p) = Stdio_pipe"
    "env (spawn_opts p) =
       spawn_env rt port (path_dirname rt (binPath (paths rt (getOsPlatform rt))))
         (path_resolve rt (path_resolve rt (installationPath this) toolchain0) ''bin'')
         (langserverRelatedEnv rt (path_resolve rt (installationPath this) toolchain0)
            (goPath (options this)) (path_resolve rt (goPath (options this)) ''.cache''))"
    "stdout_on_data p = [\<lambda>data. Log_stdout log (buffer_toString rt data)]"
    "stderr_on_data p = [\<lambda>data. Log_stderr log (buffer_toString rt data)]"
    "effects (spawnProcess this rt fs port log) =
       (if goPath (options this) \<in> fs then [] else [MkdirSync (goPath (options this))]) @
       [Spawn (command p) (args p) (spawn_opts p),
        Log (Log_info log (''Launch Go Language Server at port '' @ number_toString port @
                  '', pid:'' @ number_toString (spawn_pid rt) @ '', GOROOT:'' @
                  path_resolve rt (installationPath this) toolchain0))]"
proof -
  from assms obtain launcher0 rest toolchain0 rest' where
    exe: "glob_sync rt (launcher_pattern rt) (installationPath this) = launcher0 # rest"
    and go: "glob_sync rt ''**/go/**'' (installationPath this) = toolchain0 # rest'"
    and run: "spawnProcess this rt fs port log =
       launch this rt port log launcher0 (path_resolve rt (installationPath this) toolchain0)
         (insert (goPath (options this)) fs)
         (if goPath (options this) \<in> fs then [] else [MkdirSync (goPath (options this))])"
    by (rule spawnProcess_success)
  obtain p where p:
    "result (launch this rt port log launcher0
               (path_resolve rt (installationPath this) toolchain0)
               (insert (goPath (options this)) fs)
               (if goPath (options this) \<in> fs then [] else [MkdirSync (goPath (options this))]))
       = Inr (ExternalProgram p (options this) log)"
    "command p = path_resolve rt (installationPath this) launcher0"
    "args p = [''-port='' @ number_toString port]"
    "detached (spawn_opts p) = False"
    "stdio (spawn_opts p) = Stdio_pipe"
    "env (spawn_opts p) =
       spawn_env rt port (path_dirname rt (binPath (paths rt (getOsPlatform rt))))
         (path_resolve rt (path_resolve rt (installationPath this) toolchain0) ''bin'')
         (langserverRelatedEnv rt (path_resolve rt (installationPath this) toolchain0)
            (goPath (options this)) (path_resolve rt (goPath (options this)) ''.cache''))"
    "stdout_on_data p = [\<lambda>data. Log_stdout log (buffer_toString rt data)]"
    "stderr_on_data p = [\<lambda>data. Log_stderr log (buffer_toString rt data)]"
    "effects (launch this rt port log launcher0
               (path_resolve rt (installationPath this) toolchain0)
               (insert (goPath (options this)) fs)
               (if goPath (options this) \<in> fs then [] else [MkdirSync (goPath (options this))]))
       = (if goPath (options this) \<in> fs then [] else [MkdirSync (goPath (options this))]) @
         [Spawn (command p) (args p) (spawn_opts p),
          Log (Log_info log (''Launch Go Language Server at port '' @ number_toString port @
                    '', pid:'' @ number_toString (spawn_pid rt) @ '', GOROOT:'' @
                    path_resolve rt (installationPath this) toolchain0))]"
    by (rule launch_returns)
  from assms have ep: "ep = ExternalProgram p (options this) log"
    by (simp only: run p(1) sum.inject)
  have eff: "effects (spawnProcess this rt fs port log) =
       (if goPath (options this) \<in> fs then [] else [MkdirSync (goPath (options this))]) @
       [Spawn (command p) (args p) (spawn_opts p),
        Log (Log_info log (''Launch Go Language Server at port '' @ number_toString port @
                  '', pid:'' @ number_toString (spawn_pid rt) @ '', GOROOT:'' @
                  path_resolve rt (installationPath this) toolchain0))]"
    by (simp only: run p(9))
  show thesis
    by (rule that [OF ep exe go p(2-8) eff])
qed

text \<open>The call on the sample installation: both searches match, and the cache path is made.\<close>

lemma lsp_spawnProcess:
  "spawnProcess (lsp_launcher d) (posix_host lsp_glob) {} 5000 code_log =
     launch (lsp_launcher d) (posix_host lsp_glob) 5000 code_log ''go-langserver''
       ''/opt/lsp/sdk/go'' {''/data/gopath''} [MkdirSync ''/data/gopath'']"
  by (simp add: spawnProcess_def launcher_pattern_def getBundledGoToolchain_def
        posix_host_def lsp_glob_def lsp_launcher_def under_def)

lemma lsp_returns:
  obtains p where
    "result (spawnProcess (lsp_launcher d) (posix_host lsp_glob) {} 5000 code_log) =
       Inr (ExternalProgram p (options (lsp_launcher d)) code_log)"
proof -
  obtain p where
    "result (launch (lsp_launcher d) (posix_host lsp_glob) 5000 code_log ''go-langserver''
       ''/opt/lsp/sdk/go'' {''/data/gopath''} [MkdirSync ''/data/gopath'']) =
       Inr (ExternalProgram p (options (lsp_launcher d)) code_log)"
    by (rule launch_returns)
  then show thesis
    by (intro that [of p]) (simp only: lsp_spawnProcess)
qed

section \<open>Executable discovery\<close>

text \<open>
  C1. When the search for the platform's executable name under the installation path
  finds nothing, \<open>spawnProcess\<close> throws \<^verbatim>\<open>Cannot find executable go language server\<close>,
  and it has done nothing else: no directory is made, no process is spawned, nothing is
  logged, and the file system is as it was.
\<close>

theorem spawnProcess_executable_missing:
  assumes "glob_sync rt (if process_platform rt = ''win32'' then ''go-langserver.exe''
                         else ''go-langserver'') (installationPath this) = []"
  shows "spawnProcess this rt fs port log =
           \<lparr>result = Inl (Error ''Cannot find executable go language server''),
            fs_after = fs, effects = []\<rparr>"
  using assms by (simp add: spawnProcess_def launcher_pattern_def executable_error_def)

theorem spawnProcess_executable_missing_witness:
  "glob_sync (posix_host empty_glob)
     (if process_platform (posix_host empty_glob) = ''win32'' then ''go-langserver.exe''
      else ''go-langserver'') (installationPath (lsp_launcher False)) = [] \<and>
   spawnProcess (lsp_launcher False) (posix_host empty_glob) {} 5000 code_log =
     \<lparr>result = Inl (Error ''Cannot find executable go language server''),
      fs_after = {}, effects = []\<rparr>"
proof -
  have none: "glob_sync (posix_host empty_glob)
     (if process_platform (posix_host empty_glob) = ''win32'' then ''go-langserver.exe''
      else ''go-langserver'') (installationPath (lsp_launcher False)) = []"
    by (simp add: posix_host_def empty_glob_def)
  from none spawnProcess_executable_missing [OF none, of "{}" 5000 code_log]
  show ?thesis by (rule conjI)
qed

section \<open>Toolchain discovery\<close>

text \<open>
  C2, as the specification states it, fails: in an installation that has neither the
  executable nor the toolchain directory, the search for \<^verbatim>\<open>**/go/**\<close> finds nothing,
  and the error is the one about the executable.
\<close>

theorem spawnProcess_toolchain_missing_counterexample:
  "glob_sync (posix_host empty_glob) ''**/go/**'' (installationPath (lsp_launcher False)) = [] \<and>
   result (spawnProcess (lsp_launcher False) (posix_host empty_glob) {} 5000 code_log) =
     Inl (Error ''Cannot find executable go language server'') \<and>
   result (spawnProcess (lsp_launcher False) (posix_host empty_glob) {} 5000 code_log) \<noteq>
     Inl (Error ''Cannot find go toolchain in bundle installation'')"
  by (simp add: spawnProcess_def launcher_pattern_def executable_error_def posix_host_def
        empty_glob_def)

text \<open>
  C2, amended. When the executable is found and the search for \<^verbatim>\<open>**/go/**\<close> under the
  installation path finds nothing, \<open>spawnProcess\<close> throws
  \<^verbatim>\<open>Cannot find go toolchain in bundle installation\<close>, having spawned no process and
  done nothing else.
\<close>

theorem spawnProcess_toolchain_missing:
  assumes "glob_sync rt (if process_platform rt = ''win32'' then ''go-langserver.exe''
                         else ''go-langserver'') (installationPath this) \<noteq> []"
    and "glob_sync rt ''**/go/**'' (installationPath this) = []"
  shows "spawnProcess this rt fs port log =
           \<lparr>result = Inl (Error ''Cannot find go toolchain in bundle installation''),
            fs_after = fs, effects = []\<rparr>"
  using assms
  by (cases "process_platform rt = ''win32''")
     (simp_all add: spawnProcess_def launcher_pattern_def getBundledGoToolchain_def
        toolchain_error_def split: list.splits)

theorem spawnProcess_toolchain_missing_witness:
  "glob_sync (posix_host bare_glob)
     (if process_platform (posix_host bare_glob) = ''win32'' then ''go-langserver.exe''
      else ''go-langserver'') (installationPath (lsp_launcher False)) \<noteq> [] \<and>
   glob_sync (posix_host bare_glob) ''**/go/**'' (installationPath (lsp_launcher False)) = [] \<and>
   spawnProcess (lsp_launcher False) (posix_host bare_glob) {} 5000 code_log =
     \<lparr>result = Inl (Error ''Cannot find go toolchain in bundle installation''),
      fs_after = {}, effects = []\<rparr>"
proof -
  have exe: "glob_sync (posix_host bare_glob)
     (if process_platform (posix_host bare_glob) = ''win32'' then ''go-langserver.exe''
      else ''go-langserver'') (installationPath (lsp_launcher False)) \<noteq> []"
    by (simp add: posix_host_def bare_glob_def lsp_launcher_def)
  have go: "glob_sync (posix_host bare_glob) ''**/go/**''
              (installationPath (lsp_launcher False)) = []"
    by (simp add: posix_host_def bare_glob_def)
  from exe go spawnProcess_toolchain_missing [OF exe go, of "{}" 5000 code_log]
  show ?thesis by simp
qed

text \<open>
  C8. The executable is looked for first: an installation that has neither the
  executable nor the toolchain gets the error about the executable, and the error about
  the toolchain is thrown only after the executable was found.
\<close>

theorem spawnProcess_executable_checked_first:
  "(glob_sync rt (if process_platform rt = ''win32'' then ''go-langserver.exe''
                  else ''go-langserver'') (installationPath this) = [] \<and>
    glob_sync rt ''**/go/**'' (installationPath this) = [] \<longrightarrow>
      result (spawnProcess this rt fs port log) =
        Inl (Error ''Cannot find executable go language server'')) \<and>
   (result (spawnProcess this rt fs port log) =
      Inl (Error ''Cannot find go toolchain in bundle installation'') \<longrightarrow>
      glob_sync rt (if process_platform rt = ''win32'' then ''go-langserver.exe''
                    else ''go-langserver'') (installationPath this) \<noteq> [])"
  by (cases "process_platform rt = ''win32''")
     (auto simp: spawnProcess_def launcher_pattern_def executable_error_def)

theorem spawnProcess_executable_checked_first_witness:
  "result (spawnProcess (lsp_launcher False) (posix_host empty_glob) {} 5000 code_log) =
     Inl (Error ''Cannot find executable go language server'') \<and>
   result (spawnProcess (lsp_launcher False) (posix_host bare_glob) {} 5000 code_log) =
     Inl (Error ''Cannot find go toolchain in bundle installation'') \<and>
   glob_sync (posix_host bare_glob) ''go-langserver'' (installationPath (lsp_launcher False))
     \<noteq> []"
proof -
  have both: "glob_sync (posix_host empty_glob)
       (if process_platform (posix_host empty_glob) = ''win32'' then ''go-langserver.exe''
        else ''go-langserver'') (installationPath (lsp_launcher False)) = [] \<and>
     glob_sync (posix_host empty_glob) ''**/go/**'' (installationPath (lsp_launcher False)) = []"
    by (simp add: posix_host_def empty_glob_def)
  have thrown: "result (spawnProcess (lsp_launcher False) (posix_host bare_glob) {} 5000 code_log) =
      Inl (Error ''Cannot find go toolchain in bundle installation'')"
    by (simp add: spawnProcess_def launcher_pattern_def getBundledGoToolchain_def
          toolchain_error_def posix_host_def bare_glob_def lsp_launcher_def)
  have linux: "process_platform (posix_host bare_glob) \<noteq> ''win32''"
    by (simp add: posix_host_def)
  from spawnProcess_executable_checked_first
         [of "posix_host empty_glob" "lsp_launcher False" "{}" 5000 code_log] both
  have first: "result (spawnProcess (lsp_launcher False) (posix_host empty_glob) {} 5000 code_log) =
     Inl (Error ''Cannot find executable go language server'')"
    by blast
  from spawnProcess_executable_checked_first
         [of "posix_host bare_glob" "lsp_launcher False" "{}" 5000 code_log] thrown linux
  have "glob_sync (posix_host bare_glob) ''go-langserver''
          (installationPath (lsp_launcher False)) \<noteq> []"
    by simp
  with first thrown show ?thesis by simp
qed

section \<open>The port\<close>

text \<open>
  C3. In detach mode \<open>getPort\<close> returns 2091, whatever port the lookup of \<^verbatim>\<open>get-port\<close>
  would have given, so every call returns the same port; out of detach mode it returns
  the port that the lookup gives.
\<close>

theorem getPort_detach:
  "(detach (lsp (options this)) \<longrightarrow>
      getPort this rt = 2091 \<and> getPort this rt' = getPort this rt) \<and>
   (\<not> detach (lsp (options this)) \<longrightarrow> getPort this rt = get_port rt)"
  by (simp add: getPort_def GO_LANG_DETACH_PORT_def)

theorem getPort_detach_witness:
  "detach (lsp (options (lsp_launcher True))) \<and>
   getPort (lsp_launcher True) (posix_host lsp_glob) = 2091 \<and>
   getPort (lsp_launcher True) ((posix_host lsp_glob)\<lparr>get_port := 50000\<rparr>) = 2091 \<and>
   \<not> detach (lsp (options (lsp_launcher False))) \<and>
   getPort (lsp_launcher False) (posix_host lsp_glob) = 49152"
proof -
  have on: "detach (lsp (options (lsp_launcher True)))"
    and off: "\<not> detach (lsp (options (lsp_launcher False)))"
    by (simp_all add: lsp_launcher_def)
  have port: "get_port (posix_host lsp_glob) = 49152"
    by (simp add: posix_host_def)
  from getPort_detach [of "lsp_launcher True" "posix_host lsp_glob"
                          "(posix_host lsp_glob)\<lparr>get_port := 50000\<rparr>"] on
  have "getPort (lsp_launcher True) (posix_host lsp_glob) = 2091"
    and "getPort (lsp_launcher True) ((posix_host lsp_glob)\<lparr>get_port := 50000\<rparr>) = 2091"
    by simp_all
  moreover from getPort_detach [of "lsp_launcher False" "posix_host lsp_glob"] off port
  have "getPort (lsp_launcher False) (posix_host lsp_glob) = 49152"
    by simp
  ultimately show ?thesis using on off by simp
qed

section \<open>The environment of the language server\<close>



section \<open>The cache path\<close>




section \<open>First match wins\<close>

text \<open>
  C6. A call that returns a handle has spawned the first match of the search for the
  executable, resolved against the installation path, with \<^verbatim>\<open>GOROOT\<close> set to the first
  match of the search for \<^verbatim>\<open>**/go/**\<close>, resolved against the installation path: the
  child in the handle is the one of the \<^verbatim>\<open>spawn\<close> call that was made. On the
  installation \<^verbatim>\<open>/opt/lsp\<close> that holds \<^verbatim>\<open>go-langserver\<close> and the directory
  \<^verbatim>\<open>sdk/go/bin\<close>, \<open>spawnProcess\<close> with port 5000 spawns \<^verbatim>\<open>/opt/lsp/go-langserver\<close> and
  returns a handle on that process, whose \<^verbatim>\<open>GOROOT\<close> is \<^verbatim>\<open>/opt/lsp/sdk/go\<close>.
\<close>

theorem spawnProcess_first_match:
  "(\<forall>p so lg. result (spawnProcess this rt fs port log) = Inr (ExternalProgram p so lg) \<longrightarrow>
      (\<exists>launcher0 rest toolchain0 rest'.
         glob_sync rt (if process_platform rt = ''win32'' then ''go-langserver.exe''
                       else ''go-langserver'') (installationPath this) = launcher0 # rest \<and>
         glob_sync rt ''**/go/**'' (installationPath this) = toolchain0 # rest' \<and>
         command p = path_resolve rt (installationPath this) launcher0 \<and>
         env (spawn_opts p) ''GOROOT'' =
           Some (path_resolve rt (installationPath this) toolchain0) \<and>
         Spawn (command p) (args p) (spawn_opts p)
           \<in> set (effects (spawnProcess this rt fs port log)))) \<and>
   (\<exists>p. result (spawnProcess (lsp_launcher False) (posix_host lsp_glob) {} 5000 code_log) =
           Inr (ExternalProgram p (options (lsp_launcher False)) code_log) \<and>
         command p = ''/opt/lsp/go-langserver'' \<and>
         env (spawn_opts p) ''GOROOT'' = Some ''/opt/lsp/sdk/go'' \<and>
         Spawn (command p) (args p) (spawn_opts p)
           \<in> set (effects (spawnProcess (lsp_launcher False) (posix_host lsp_glob) {} 5000
                              code_log)))"
proof (intro conjI allI impI)
  fix p so lg
  assume "result (spawnProcess this rt fs port log) = Inr (ExternalProgram p so lg)"
  then obtain q launcher0 rest toolchain0 rest' where
    ep: "ExternalProgram p so lg = ExternalProgram q (options this) log"
    and exe: "glob_sync rt (launcher_pattern rt) (installationPath this) = launcher0 # rest"
    and go: "glob_sync rt ''**/go/**'' (installationPath this) = toolchain0 # rest'"
    and cmd: "command q = path_resolve rt (installationPath this) launcher0"
    and env: "env (spawn_opts q) =
       spawn_env rt port (path_dirname rt (binPath (paths rt (getOsPlatform rt))))
         (path_resolve rt (path_resolve rt (installationPath this) toolchain0) ''bin'')
         (langserverRelatedEnv rt (path_resolve rt (installationPath this) toolchain0)
            (goPath (options this)) (path_resolve rt (goPath (options this)) ''.cache''))"
    and eff: "effects (spawnProcess this rt fs port log) =
       (if goPath (options this) \<in> fs then [] else [MkdirSync (goPath (options this))]) @
       [Spawn (command q) (args q) (spawn_opts q),
        Log (Log_info log (''Launch Go Language Server at port '' @ number_toString port @
                  '', pid:'' @ number_toString (spawn_pid rt) @ '', GOROOT:'' @
                  path_resolve rt (installationPath this) toolchain0))]"
    by (rule spawnProcess_launched)
  from ep have q: "q = p" by simp
  from exe have exe': "glob_sync rt (if process_platform rt = ''win32'' then ''go-langserver.exe''
                       else ''go-langserver'') (installationPath this) = launcher0 # rest"
    by (simp add: launcher_pattern_def)
  from env have root: "env (spawn_opts p) ''GOROOT'' =
           Some (path_resolve rt (installationPath this) toolchain0)"
    by (simp add: q spawn_env_keys)
  have spawned: "Spawn (command p) (args p) (spawn_opts p)
                   \<in> set (effects (spawnProcess this rt fs port log))"
    by (simp add: eff q)
  from exe' go cmd root spawned
  show "\<exists>launcher0 rest toolchain0 rest'.
         glob_sync rt (if process_platform rt = ''win32'' then ''go-langserver.exe''
                       else ''go-langserver'') (installationPath this) = launcher0 # rest \<and>
         glob_sync rt ''**/go/**'' (installationPath this) = toolchain0 # rest' \<and>
         command p = path_resolve rt (installationPath this) launcher0 \<and>
         env (spawn_opts p) ''GOROOT'' =
           Some (path_resolve rt (installationPath this) toolchain0) \<and>
         Spawn (command p) (args p) (spawn_opts p)
           \<in> set (effects (spawnProcess this rt fs port log))"
    by (simp add: q)
next
  obtain p where
    res: "result (launch (lsp_launcher False) (posix_host lsp_glob) 5000 code_log
            ''go-langserver'' ''/opt/lsp/sdk/go'' {''/data/gopath''}
            [MkdirSync ''/data/gopath'']) =
          Inr (ExternalProgram p (options (lsp_launcher False)) code_log)"
    and cmd: "command p =
       path_resolve (posix_host lsp_glob) (installationPath (lsp_launcher False))
         ''go-langserver''"
    and env: "env (spawn_opts p) =
       spawn_env (posix_host lsp_glob) 5000
         (path_dirname (posix_host lsp_glob)
            (binPath (paths (posix_host lsp_glob) (getOsPlatform (posix_host lsp_glob)))))
         (path_resolve (posix_host lsp_glob) ''/opt/lsp/sdk/go'' ''bin'')
         (langserverRelatedEnv (posix_host lsp_glob) ''/opt/lsp/sdk/go''
            (goPath (options (lsp_launcher False)))
            (path_resolve (posix_host lsp_glob) (goPath (options (lsp_launcher False)))
               ''.cache''))"
    and eff: "effects (launch (lsp_launcher False) (posix_host lsp_glob) 5000 code_log
            ''go-langserver'' ''/opt/lsp/sdk/go'' {''/data/gopath''}
            [MkdirSync ''/data/gopath'']) =
       [MkdirSync ''/data/gopath''] @
       [Spawn (command p) (args p) (spawn_opts p),
        Log (Log_info code_log (''Launch Go Language Server at port '' @ number_toString 5000 @
               '', pid:'' @ number_toString (spawn_pid (posix_host lsp_glob)) @
               '', GOROOT:'' @ ''/opt/lsp/sdk/go''))]"
    by (rule launch_returns)
  have root: "env (spawn_opts p) ''GOROOT'' = Some ''/opt/lsp/sdk/go''"
    by (simp only: env spawn_env_keys)
  have run: "command p = ''/opt/lsp/go-langserver''"
    by (simp add: cmd posix_host_def lsp_launcher_def under_def)
  have spawned: "Spawn (command p) (args p) (spawn_opts p)
       \<in> set (effects (launch (lsp_launcher False) (posix_host lsp_glob) 5000 code_log
            ''go-langserver'' ''/opt/lsp/sdk/go'' {''/data/gopath''}
            [MkdirSync ''/data/gopath'']))"
    by (simp add: eff)
  from res run root spawned
  show "\<exists>p. result (spawnProcess (lsp_launcher False) (posix_host lsp_glob) {} 5000
                          code_log) =
           Inr (ExternalProgram p (options (lsp_launcher False)) code_log) \<and>
         command p = ''/opt/lsp/go-langserver'' \<and>
         env (spawn_opts p) ''GOROOT'' = Some ''/opt/lsp/sdk/go'' \<and>
         Spawn (command p) (args p) (spawn_opts p)
           \<in> set (effects (spawnProcess (lsp_launcher False) (posix_host lsp_glob) {} 5000
                              code_log))"
    by (auto simp only: lsp_spawnProcess)
qed

theorem spawnProcess_first_match_witness:
  "\<exists>p. result (spawnProcess (lsp_launcher True) (posix_host lsp_glob) {} 5000 code_log) =
          Inr (ExternalProgram p (options (lsp_launcher True)) code_log) \<and>
        command p = ''/opt/lsp/go-langserver'' \<and>
        env (spawn_opts p) ''GOROOT'' = Some ''/opt/lsp/sdk/go'' \<and>
        Spawn (command p) (args p) (spawn_opts p)
          \<in> set (effects (spawnProcess (lsp_launcher True) (posix_host lsp_glob) {} 5000
                             code_log))"
proof -
  obtain p where p:
    "result (spawnProcess (lsp_launcher True) (posix_host lsp_glob) {} 5000 code_log) =
       Inr (ExternalProgram p (options (lsp_launcher True)) code_log)"
    by (rule lsp_returns)
  have host: "glob_sync (posix_host lsp_glob)
       (if process_platform (posix_host lsp_glob) = ''win32'' then ''go-langserver.exe''
        else ''go-langserver'') (installationPath (lsp_launcher True)) = [''go-langserver'']"
    "glob_sync (posix_host lsp_glob) ''**/go/**'' (installationPath (lsp_launcher True)) =
       [''sdk/go'', ''sdk/go/bin'']"
    "path_resolve (posix_host lsp_glob) (installationPath (lsp_launcher True)) =
       under ''/opt/lsp''"
    by (simp_all add: posix_host_def lsp_glob_def lsp_launcher_def)
  from spawnProcess_first_match
         [of "lsp_launcher True" "posix_host lsp_glob" "{}" 5000 code_log] p
  have "\<exists>launcher0 rest toolchain0 rest'.
         glob_sync (posix_host lsp_glob)
           (if process_platform (posix_host lsp_glob) = ''win32'' then ''go-langserver.exe''
            else ''go-langserver'') (installationPath (lsp_launcher True)) = launcher0 # rest \<and>
         glob_sync (posix_host lsp_glob) ''**/go/**'' (installationPath (lsp_launcher True)) =
           toolchain0 # rest' \<and>
         command p =
           path_resolve (posix_host lsp_glob) (installationPath (lsp_launcher True)) launcher0 \<and>
         env (spawn_opts p) ''GOROOT'' =
           Some (path_resolve (posix_host lsp_glob) (installationPath (lsp_launcher True))
                   toolchain0) \<and>
         Spawn (command p) (args p) (spawn_opts p)
           \<in> set (effects (spawnProcess (lsp_launcher True) (posix_host lsp_glob) {} 5000
                              code_log))"
    by blast
  then have "command p = ''/opt/lsp/go-langserver'' \<and>
        env (spawn_opts p) ''GOROOT'' = Some ''/opt/lsp/sdk/go'' \<and>
        Spawn (command p) (args p) (spawn_opts p)
          \<in> set (effects (spawnProcess (lsp_launcher True) (posix_host lsp_glob) {} 5000
                             code_log))"
    by (auto simp: host under_def)
  with p show ?thesis by blast
qed

section \<open>The spawned process and its handle\<close>

text \<open>
  C7. A call that returns a handle has made one \<^verbatim>\<open>spawn\<close> call, with \<^verbatim>\<open>stdio: 'pipe'\<close>
  and \<^verbatim>\<open>detached: false\<close>; the child has one listener on the data of its standard output,
  which passes each chunk as text to \<^verbatim>\<open>log.stdout\<close>, and one on the data of its standard
  error, which passes each chunk as text to \<^verbatim>\<open>log.stderr\<close>; and the handle is an
  \<^verbatim>\<open>ExternalProgram\<close> made of that child, the launcher's options and the log.
\<close>

theorem spawnProcess_handle:
  assumes "result (spawnProcess this rt fs port log) = Inr ep"
  shows "\<exists>p line. ep = ExternalProgram p (options this) log \<and>
           stdio (spawn_opts p) = Stdio_pipe \<and>
           \<not> detached (spawn_opts p) \<and>
           stdout_on_data p = [\<lambda>data. Log_stdout log (buffer_toString rt data)] \<and>
           stderr_on_data p = [\<lambda>data. Log_stderr log (buffer_toString rt data)] \<and>
           effects (spawnProcess this rt fs port log) =
             (if goPath (options this) \<in> fs then [] else [MkdirSync (goPath (options this))]) @
             [Spawn (command p) (args p) (spawn_opts p), Log (Log_info log line)]"
proof -
  from assms obtain p launcher0 rest toolchain0 rest' where
    "ep = ExternalProgram p (options this) log"
    "glob_sync rt (launcher_pattern rt) (installationPath this) = launcher0 # rest"
    "glob_sync rt ''**/go/**'' (installationPath this) = toolchain0 # rest'"
    "detached (spawn_opts p) = False"
    "stdio (spawn_opts p) = Stdio_pipe"
    "stdout_on_data p = [\<lambda>data. Log_stdout log (buffer_toString rt data)]"
    "stderr_on_data p = [\<lambda>data. Log_stderr log (buffer_toString rt data)]"
    "effects (spawnProcess this rt fs port log) =
       (if goPath (options this) \<in> fs then [] else [MkdirSync (goPath (options this))]) @
       [Spawn (command p) (args p) (spawn_opts p),
        Log (Log_info log (''Launch Go Language Server at port '' @ number_toString port @
                  '', pid:'' @ number_toString (spawn_pid rt) @ '', GOROOT:'' @
                  path_resolve rt (installationPath this) toolchain0))]"
    by (rule spawnProcess_launched)
  then show ?thesis by blast
qed

theorem spawnProcess_handle_witness:
  "\<exists>p line. result (spawnProcess (lsp_launcher False) (posix_host lsp_glob)
                     {''/data/gopath''} 5000 code_log) =
             Inr (ExternalProgram p (options (lsp_launcher False)) code_log) \<and>
           stdio (spawn_opts p) = Stdio_pipe \<and>
           \<not> detached (spawn_opts p) \<and>
           map (\<lambda>listener. listener ''ready'') (stdout_on_data p) =
             [Log_stdout code_log ''ready''] \<and>
           map (\<lambda>listener. listener ''panic'') (stderr_on_data p) =
             [Log_stderr code_log ''panic''] \<and>
           effects (spawnProcess (lsp_launcher False) (posix_host lsp_glob)
                      {''/data/gopath''} 5000 code_log) =
             [Spawn (command p) (args p) (spawn_opts p), Log (Log_info code_log line)]"
proof -
  have run: "spawnProcess (lsp_launcher False) (posix_host lsp_glob) {''/data/gopath''} 5000
               code_log =
     launch (lsp_launcher False) (posix_host lsp_glob) 5000 code_log ''go-langserver''
       ''/opt/lsp/sdk/go'' {''/data/gopath''} []"
    by (simp add: spawnProcess_def launcher_pattern_def getBundledGoToolchain_def
          posix_host_def lsp_glob_def lsp_launcher_def under_def)
  obtain q where
    "result (launch (lsp_launcher False) (posix_host lsp_glob) 5000 code_log ''go-langserver''
       ''/opt/lsp/sdk/go'' {''/data/gopath''} []) =
       Inr (ExternalProgram q (options (lsp_launcher False)) code_log)"
    by (rule launch_returns)
  then have res: "result (spawnProcess (lsp_launcher False) (posix_host lsp_glob)
                     {''/data/gopath''} 5000 code_log) =
             Inr (ExternalProgram q (options (lsp_launcher False)) code_log)"
    by (simp only: run)
  have host: "goPath (options (lsp_launcher False)) = ''/data/gopath''"
    "buffer_toString (posix_host lsp_glob) ''ready'' = ''ready''"
    "buffer_toString (posix_host lsp_glob) ''panic'' = ''panic''"
    by (simp_all add: posix_host_def lsp_launcher_def)
  from spawnProcess_handle [OF res] obtain p line where
    "ExternalProgram q (options (lsp_launcher False)) code_log =
       ExternalProgram p (options (lsp_launcher False)) code_log"
    "stdio (spawn_opts p) = Stdio_pipe"
    "\<not> detached (spawn_opts p)"
    "stdout_on_data p =
       [\<lambda>data. Log_stdout code_log (buffer_toString (posix_host lsp_glob) data)]"
    "stderr_on_data p =
       [\<lambda>data. Log_stderr code_log (buffer_toString (posix_host lsp_glob) data)]"
    "effects (spawnProcess (lsp_launcher False) (posix_host lsp_glob)
                {''/data/gopath''} 5000 code_log) =
       (if goPath (options (lsp_launcher False)) \<in> {''/data/gopath''} then []
        else [MkdirSync (goPath (options (lsp_launcher False)))]) @
       [Spawn (command p) (args p) (spawn_opts p), Log (Log_info code_log line)]"
    by blast
  with res show ?thesis
    by (intro exI [of _ p] exI [of _ line]) (simp add: host)
qed

section \<open>The expression render handler\<close>

text \<open>
  C9, as the specification states it, fails twice. Data of type \<^verbatim>\<open>render\<close> whose \<^verbatim>\<open>as\<close>
  is the empty string has an \<^verbatim>\<open>as\<close> field for which the registry has no entry, and is
  rejected as invalid data; so is data of another type whose \<^verbatim>\<open>as\<close> names no renderer.
  Neither gets the error about the renderer id.
\<close>

theorem render_invalid_counterexample:
  "data_as (render_data ''render'' []) = Some [] \<and>
   markdown_registry [] = None \<and>
   fst (render fresh_handler markdown_registry (Some (render_data ''render'' [])) []) =
     Inl (Error ''invalid data provided to expression renderer'') \<and>
   fst (render fresh_handler markdown_registry (Some (render_data ''render'' [])) []) \<noteq>
     Inl (Error (''invalid renderer id '' @ [CHR 0x27] @ [] @ [CHR 0x27])) \<and>
   data_as (render_data ''table'' ''grid'') = Some ''grid'' \<and>
   markdown_registry ''grid'' = None \<and>
   fst (render fresh_handler markdown_registry (Some (render_data ''table'' ''grid'')) []) \<noteq>
     Inl (Error (''invalid renderer id '' @ [CHR 0x27] @ ''grid'' @ [CHR 0x27]))"
  by (simp add: render_def render_data_def markdown_registry_def invalid_data_def)

text \<open>
  C9, amended. \<open>render\<close> throws \<^verbatim>\<open>invalid data provided to expression renderer\<close> for
  data that is missing, whose type is not \<^verbatim>\<open>render\<close>, or whose \<^verbatim>\<open>as\<close> is missing or
  empty; for data that passes this check it throws \<^verbatim>\<open>invalid renderer id '<as>'\<close> when
  the registry has no entry for \<^verbatim>\<open>as\<close>. In both cases the handler is left as it was: no
  renderer has run and nothing was emitted on \<^verbatim>\<open>render$\<close>.
\<close>

theorem render_invalid:
  "((data = None \<or>
     (\<exists>d. data = Some d \<and>
          (data_type d \<noteq> Some ''render'' \<or> data_as d = None \<or> data_as d = Some []))) \<longrightarrow>
      render this registry data extraHandlers =
        (Inl (Error ''invalid data provided to expression renderer''), this)) \<and>
   (\<forall>d a. data = Some d \<and> data_type d = Some ''render'' \<and> data_as d = Some a \<and> a \<noteq> [] \<and>
          registry a = None \<longrightarrow>
      render this registry data extraHandlers =
        (Inl (Error (''invalid renderer id '' @ [CHR 0x27] @ a @ [CHR 0x27])), this))"
  by (auto simp: render_def invalid_data_def invalid_renderer_def quote_def
           split: option.splits)

theorem render_invalid_witness:
  "render fresh_handler markdown_registry None [] =
     (Inl (Error ''invalid data provided to expression renderer''), fresh_handler) \<and>
   render fresh_handler markdown_registry (Some (render_data ''table'' ''markdown'')) [] =
     (Inl (Error ''invalid data provided to expression renderer''), fresh_handler) \<and>
   render fresh_handler markdown_registry (Some (render_data ''render'' ''grid'')) [] =
     (Inl (Error (''invalid renderer id '' @ [CHR 0x27] @ ''grid'' @ [CHR 0x27])),
      fresh_handler)"
proof -
  have table: "data_type (render_data ''table'' ''markdown'') \<noteq> Some ''render''"
    by (simp add: render_data_def)
  have grid: "data_type (render_data ''render'' ''grid'') = Some ''render''"
    "data_as (render_data ''render'' ''grid'') = Some ''grid''"
    "''grid'' \<noteq> []"
    "markdown_registry ''grid'' = None"
    by (simp_all add: render_data_def markdown_registry_def)
  from render_invalid [of None fresh_handler markdown_registry "[]"]
  have "render fresh_handler markdown_registry None [] =
     (Inl (Error ''invalid data provided to expression renderer''), fresh_handler)"
    by simp
  moreover
  from render_invalid [of "Some (render_data ''table'' ''markdown'')" fresh_handler
                          markdown_registry "[]"] table
  have "render fresh_handler markdown_registry (Some (render_data ''table'' ''markdown'')) [] =
     (Inl (Error ''invalid data provided to expression renderer''), fresh_handler)"
    by simp
  moreover
  from render_invalid [of "Some (render_data ''render'' ''grid'')" fresh_handler
                          markdown_registry "[]"] grid
  have "render fresh_handler markdown_registry (Some (render_data ''render'' ''grid'')) [] =
     (Inl (Error (''invalid renderer id '' @ [CHR 0x27] @ ''grid'' @ [CHR 0x27])),
      fresh_handler)"
    by blast
  ultimately show ?thesis by simp
qed

section \<open>The events-over-time query\<close>

text \<open>
  C10. Whatever the request, the body of the query has size 0 and tracks total hits;
  its \<^verbatim>\<open>eventActionGroup\<close> is a terms aggregation on \<^verbatim>\<open>event.action\<close> of size 10, with
  \<^verbatim>\<open>All others\<close> for the missing and descending count for the order; and the \<^verbatim>\<open>events\<close>
  aggregation below it is a date histogram on \<^verbatim>\<open>@timestamp\<close> with the fixed interval
  \<^verbatim>\<open><interval>s\<close> when \<^verbatim>\<open>calculateTimeseriesInterval(from, to, 10)\<close> is truthy, and an auto
  date histogram on \<^verbatim>\<open>@timestamp\<close> with 36 buckets when it is not.
\<close>

theorem buildEventsOverTimeQuery_aggregation:
  "body_size (body (buildEventsOverTimeQuery createQueryFilterClauses
                      calculateTimeseriesInterval opts)) = 0 \<and>
   track_total_hits (body (buildEventsOverTimeQuery createQueryFilterClauses
                             calculateTimeseriesInterval opts)) \<and>
   terms (aggregations_eventActionGroup
            (body (buildEventsOverTimeQuery createQueryFilterClauses
                     calculateTimeseriesInterval opts))) =
     \<lparr>terms_field = ''event.action'', terms_missing = ''All others'',
      terms_order_count = ''desc'', terms_size = 10\<rparr> \<and>
   (\<forall>n. calculateTimeseriesInterval (tr_from (timerange opts)) (tr_to (timerange opts)) 10
          = Some n \<and> n \<noteq> 0 \<longrightarrow>
        aggs_events (aggregations_eventActionGroup
            (body (buildEventsOverTimeQuery createQueryFilterClauses
                     calculateTimeseriesInterval opts))) =
          Date_histogram ''@timestamp'' (integer_toString n @ ''s'')) \<and>
   (calculateTimeseriesInterval (tr_from (timerange opts)) (tr_to (timerange opts)) 10
      \<in> {None, Some 0} \<longrightarrow>
        aggs_events (aggregations_eventActionGroup
            (body (buildEventsOverTimeQuery createQueryFilterClauses
                     calculateTimeseriesInterval opts))) =
          Auto_date_histogram ''@timestamp'' 36)"
  by (auto simp: buildEventsOverTimeQuery_def getHistogramAggregation_def Let_def
        truthy_interval_def template_interval_def)

theorem buildEventsOverTimeQuery_aggregation_witness:
  "sample_interval 0 3600000 10 = Some 72 \<and>
   aggs_events (aggregations_eventActionGroup
     (body (buildEventsOverTimeQuery sample_clauses sample_interval
              (sample_request 0 3600000)))) =
     Date_histogram ''@timestamp'' ''72s'' \<and>
   sample_interval 0 0 10 = None \<and>
   aggs_events (aggregations_eventActionGroup
     (body (buildEventsOverTimeQuery sample_clauses sample_interval
              (sample_request 0 0)))) =
     Auto_date_histogram ''@timestamp'' 36 \<and>
   body_size (body (buildEventsOverTimeQuery sample_clauses sample_interval
                      (sample_request 0 0))) = 0"
proof -
  have hour: "sample_interval (tr_from (timerange (sample_request 0 3600000)))
                (tr_to (timerange (sample_request 0 3600000))) 10 = Some 72"
    and none: "sample_interval (tr_from (timerange (sample_request 0 0)))
                (tr_to (timerange (sample_request 0 0))) 10 = None"
    by (simp_all add: sample_interval_def sample_request_def)
  have printed: "integer_toString 72 @ ''s'' = ''72s''"
    by (simp add: integer_toString_def number_toString.simps digit_char_def)
  from buildEventsOverTimeQuery_aggregation
         [of sample_clauses sample_interval "sample_request 0 3600000"] hour
  have "aggs_events (aggregations_eventActionGroup
     (body (buildEventsOverTimeQuery sample_clauses sample_interval
              (sample_request 0 3600000)))) =
     Date_histogram ''@timestamp'' (integer_toString 72 @ ''s'')"
    by simp
  moreover
  from buildEventsOverTimeQuery_aggregation
         [of sample_clauses sample_interval "sample_request 0 0"] none
  have "aggs_events (aggregations_eventActionGroup
     (body (buildEventsOverTimeQuery sample_clauses sample_interval
              (sample_request 0 0)))) =
     Auto_date_histogram ''@timestamp'' 36"
    and "body_size (body (buildEventsOverTimeQuery sample_clauses sample_interval
                      (sample_request 0 0))) = 0"
    by simp_all
  ultimately show ?thesis
    using hour none by (simp add: printed sample_request_def)
qed

end
